theory Spec2Isabelle
  imports Main "HOL-Library.Word"
begin

section \<open>The stack sampler of ext/stacks/stacks.c\<close>

text \<open>
  The file \<^verbatim>\<open>stacks.c\<close> keeps one set of thread-local variables per sampled
  thread and two process-wide flags. A C function that reads or writes them is
  embedded as a function from the variables before the call to the variables
  after it (and the value returned). What a call reads from the Ruby runtime
  (\<^verbatim>\<open>rb_during_gc\<close>, \<^verbatim>\<open>rb_thread_current\<close>, \<^verbatim>\<open>rb_profile_frames\<close>,
  \<^verbatim>\<open>rb_postponed_job_register\<close>) is an argument of the embedded function.
  The POSIX timers, the signal mask, the fork hooks and the registration of
  the buffer with the garbage collector are operating-system and runtime state:
  they are outside the record of variables.
\<close>

subsection \<open>Ruby values\<close>

text \<open>
  A \<^verbatim>\<open>VALUE\<close> is one of the special constants, a small integer
  (\<^verbatim>\<open>INT2NUM\<close>, \<^verbatim>\<open>INT2FIX\<close>) or a reference to a heap object (a thread, a
  frame). \<^verbatim>\<open>TYPE\<close> is a macro of the Ruby headers: the type of a heap object
  is read from the object, here from the table \<open>heap\<close>. The name \<open>TYPE\<close> is
  taken in Isabelle, so the function is \<open>TYPE_of\<close>.
\<close>

datatype VALUE = Qfalse | Qtrue | Qnil | Fixnum int | Object nat

datatype ruby_type = T_FALSE | T_TRUE | T_NIL | T_FIXNUM | T_DATA | T_IMEMO | T_NODE | T_NONE

fun TYPE_of :: "(nat \<Rightarrow> ruby_type) \<Rightarrow> VALUE \<Rightarrow> ruby_type" where
  "TYPE_of heap Qfalse = T_FALSE"
| "TYPE_of heap Qtrue = T_TRUE"
| "TYPE_of heap Qnil = T_NIL"
| "TYPE_of heap (Fixnum i) = T_FIXNUM"
| "TYPE_of heap (Object a) = heap a"

subsection \<open>Constants and integer types\<close>

definition BUF_SIZE :: nat where
  "BUF_SIZE = 512"

definition MAX_TRACES :: nat where
  "MAX_TRACES = 2000"

text \<open>
  Modelled from the spec: \<^verbatim>\<open>scout_atomics.h\<close> is not among the sources. The spec
  gives the per-thread fields as atomic booleans, \<^verbatim>\<open>u16\<close> indices and \<^verbatim>\<open>u32\<close>
  counters. \<^verbatim>\<open>ATOMIC_LOAD\<close> reads a field, \<^verbatim>\<open>ATOMIC_STORE_INT16\<close> and
  \<^verbatim>\<open>ATOMIC_STORE_INT32\<close> store a C integer reduced to the width of the
  field, and \<^verbatim>\<open>ATOMIC_ADD\<close> adds with wrap-around.
\<close>

definition ATOMIC_STORE_INT16 :: "int \<Rightarrow> 16 word" where
  "ATOMIC_STORE_INT16 v = word_of_int v"

definition ATOMIC_STORE_INT32 :: "int \<Rightarrow> 32 word" where
  "ATOMIC_STORE_INT32 v = word_of_int v"

definition ATOMIC_ADD :: "'a::len word \<Rightarrow> 'a word \<Rightarrow> 'a word" where
  "ATOMIC_ADD var v = var + v"

text \<open>
  The locals \<^verbatim>\<open>cur_traces_num\<close>, \<^verbatim>\<open>start_frame_index\<close> and
  \<^verbatim>\<open>start_trace_index\<close> have the type \<^verbatim>\<open>uint_fast16_t\<close>, which the platform's
  \<^verbatim>\<open>stdint.h\<close> declares, not this repository; it is a parameter of the model.
  Where it is \<^verbatim>\<open>uint16_t\<close> the operands of a subtraction are promoted to
  \<^verbatim>\<open>int\<close> and the difference is signed. Where it is unsigned and as wide as
  \<^verbatim>\<open>long\<close>, as glibc has it (\<^verbatim>\<open>unsigned int\<close> on its 32-bit targets,
  \<^verbatim>\<open>unsigned long\<close> on its 64-bit targets), the other operand is converted to
  it and the difference wraps around modulo \<open>2 ^ 32\<close> or \<open>2 ^ 64\<close>.
\<close>

datatype fast16_rank = Below_int | Unsigned32 | Unsigned64

definition fast16_sub :: "fast16_rank \<Rightarrow> int \<Rightarrow> int \<Rightarrow> int" where
  "fast16_sub r a b =
     (case r of
        Below_int \<Rightarrow> a - b
      | Unsigned32 \<Rightarrow> (a - b) mod 2 ^ 32
      | Unsigned64 \<Rightarrow> (a - b) mod 2 ^ 64)"

text \<open>The value an assignment to a C \<^verbatim>\<open>int\<close> keeps: the low 32 bits, signed.\<close>

definition to_c_int :: "int \<Rightarrow> int" where
  "to_c_int v = sint (word_of_int v :: 32 word)"

text \<open>
  The value a difference of \<^verbatim>\<open>uint_fast16_t\<close> has when it is passed as a C
  \<^verbatim>\<open>long\<close>: an \<^verbatim>\<open>int\<close> keeps its value, an unsigned value as wide as
  \<^verbatim>\<open>long\<close> is read as signed.
\<close>

definition to_c_long :: "fast16_rank \<Rightarrow> int \<Rightarrow> int" where
  "to_c_long r v =
     (case r of
        Below_int \<Rightarrow> v
      | Unsigned32 \<Rightarrow> sint (word_of_int v :: 32 word)
      | Unsigned64 \<Rightarrow> sint (word_of_int v :: 64 word))"

subsection \<open>Per-thread variables\<close>

text \<open>
  The buffers are memory: a slot or an entry is read by its index, and an index
  at or above the allocated size stands for what lies behind the allocation.
\<close>

record c_trace =
  num_tracelines :: int
  lines_buf :: "nat \<Rightarrow> int"
  frames_buf :: "nat \<Rightarrow> VALUE"

record thread_vars =
  traces :: "nat \<Rightarrow> c_trace"
  thread_registered :: bool
  ok_to_sample :: bool
  in_signal_handler :: bool
  start_frame_index :: "16 word"
  start_trace_index :: "16 word"
  cur_traces_num :: "16 word"
  skipped_in_gc :: "32 word"
  skipped_in_signal_handler :: "32 word"
  skipped_in_job_registered :: "32 word"
  skipped_in_not_running :: "32 word"
  ruby_thread :: VALUE
  job_registered :: bool

text \<open>
  A thread starts with the static initialisers: the flags false and the indices
  and counters 0. \<^verbatim>\<open>_traces\<close> and \<^verbatim>\<open>_ruby_thread\<close> have no initialiser and are
  all-zero, which for a \<^verbatim>\<open>VALUE\<close> is \<^verbatim>\<open>Qfalse\<close>; \<open>mem\<close> is what the memory
  read through \<^verbatim>\<open>_traces\<close> holds.
\<close>

definition initial_thread_vars :: "(nat \<Rightarrow> c_trace) \<Rightarrow> thread_vars" where
  "initial_thread_vars mem =
     \<lparr> traces = mem, thread_registered = False, ok_to_sample = False,
       in_signal_handler = False, start_frame_index = 0, start_trace_index = 0,
       cur_traces_num = 0, skipped_in_gc = 0, skipped_in_signal_handler = 0,
       skipped_in_job_registered = 0, skipped_in_not_running = 0,
       ruby_thread = Qfalse, job_registered = False \<rparr>"

subsection \<open>Process-wide variables\<close>

record engine =
  scout_profiling_installed :: int
  scout_profiling_running :: int

definition initial_engine :: engine where
  "initial_engine = \<lparr> scout_profiling_installed = 0, scout_profiling_running = 0 \<rparr>"

subsection \<open>Registration\<close>

text \<open>
  \<open>cur\<close> is what \<^verbatim>\<open>rb_thread_current\<close> returns and \<open>fresh\<close> the content of the
  buffer \<^verbatim>\<open>ALLOC_N\<close> returns, which is not initialised.
\<close>

definition init_thread_vars :: "VALUE \<Rightarrow> (nat \<Rightarrow> c_trace) \<Rightarrow> thread_vars \<Rightarrow> thread_vars" where
  "init_thread_vars cur fresh st =
     st\<lparr> ok_to_sample := False,
         in_signal_handler := False,
         start_frame_index := ATOMIC_STORE_INT16 0,
         start_trace_index := ATOMIC_STORE_INT16 0,
         cur_traces_num := ATOMIC_STORE_INT16 0,
         ruby_thread := cur,
         traces := fresh \<rparr>"

definition scout_add_profiled_thread ::
  "VALUE \<Rightarrow> (nat \<Rightarrow> c_trace) \<Rightarrow> thread_vars \<Rightarrow> int \<times> thread_vars" where
  "scout_add_profiled_thread cur fresh st =
     (if thread_registered st then (1, st)
      else (1, (init_thread_vars cur fresh st)\<lparr> thread_registered := True \<rparr>))"

definition rb_scout_add_profiled_thread ::
  "VALUE \<Rightarrow> (nat \<Rightarrow> c_trace) \<Rightarrow> thread_vars \<Rightarrow> VALUE \<times> thread_vars" where
  "rb_scout_add_profiled_thread cur fresh st =
     (Qtrue, snd (scout_add_profiled_thread cur fresh st))"

text \<open>
  Removing a thread that is registered stores false in \<open>ok_to_sample\<close> and then
  calls \<^verbatim>\<open>xfree(&_gc_hook)\<close>: the address of a thread-local variable, which no
  allocator returned. The behaviour of the C program is undefined from there
  (the allocator ends the process); the call does not return, and the
  statements after it, among them the store of false in \<open>thread_registered\<close>,
  are not reached. A call gives its outcome, a fault or the value returned,
  and the variables at that moment.
\<close>

datatype fault = Invalid_free

definition remove_profiled_thread :: "thread_vars \<Rightarrow> (fault + int) \<times> thread_vars" where
  "remove_profiled_thread st =
     (if \<not> thread_registered st then (Inr 1, st)
      else (Inl Invalid_free, st\<lparr> ok_to_sample := False \<rparr>))"

definition rb_scout_remove_profiled_thread ::
  "thread_vars \<Rightarrow> (fault + VALUE) \<times> thread_vars" where
  "rb_scout_remove_profiled_thread st =
     (case remove_profiled_thread st of
        (Inl f, st') \<Rightarrow> (Inl f, st')
      | (Inr v, st') \<Rightarrow> (Inr Qtrue, st'))"

subsection \<open>Installation\<close>

definition rb_scout_start_profiling :: "engine \<Rightarrow> VALUE \<times> engine" where
  "rb_scout_start_profiling g =
     (if scout_profiling_running g \<noteq> 0 then (Qtrue, g)
      else (Qtrue, g\<lparr> scout_profiling_running := 1 \<rparr>))"

definition rb_scout_uninstall_profiling :: "engine \<Rightarrow> VALUE \<times> engine" where
  "rb_scout_uninstall_profiling g = (Qnil, g)"

definition rb_scout_install_profiling :: "engine \<Rightarrow> VALUE \<times> engine" where
  "rb_scout_install_profiling g =
     (if scout_profiling_installed g \<noteq> 0 then (Qfalse, g)
      else (Qtrue, g\<lparr> scout_profiling_installed := 1 \<rparr>))"

datatype engine_op = Install | Uninstall | Start_profiling

fun engine_step :: "engine_op \<Rightarrow> engine \<Rightarrow> VALUE \<times> engine" where
  "engine_step Install g = rb_scout_install_profiling g"
| "engine_step Uninstall g = rb_scout_uninstall_profiling g"
| "engine_step Start_profiling g = rb_scout_start_profiling g"

fun engine_run :: "engine_op list \<Rightarrow> engine \<Rightarrow> engine" where
  "engine_run [] g = g"
| "engine_run (x # xs) g = engine_run xs (snd (engine_step x g))"

subsection \<open>The signal handler\<close>

text \<open>
  \<open>during_gc\<close> is \<^verbatim>\<open>rb_during_gc()\<close>, \<open>cur\<close> is \<^verbatim>\<open>rb_thread_current()\<close> and
  \<open>register_result\<close> is what \<^verbatim>\<open>rb_postponed_job_register\<close> returns when it is
  called. The handler runs to its end without another handler in between.
\<close>

definition handler_body :: "bool \<Rightarrow> VALUE \<Rightarrow> int \<Rightarrow> thread_vars \<Rightarrow> thread_vars" where
  "handler_body during_gc cur register_result st =
     (if during_gc then
        st\<lparr> skipped_in_gc := ATOMIC_ADD (skipped_in_gc st) 1 \<rparr>
      else if cur \<noteq> ruby_thread st then
        st\<lparr> skipped_in_not_running := ATOMIC_ADD (skipped_in_not_running st) 1 \<rparr>
      else if job_registered st = False then
        (if register_result = 1 \<or> register_result = 2 then
           st\<lparr> job_registered := True \<rparr>
         else
           st\<lparr> skipped_in_job_registered := ATOMIC_ADD (skipped_in_job_registered st) 1 \<rparr>)
      else st)"

definition scout_profile_broadcast_signal_handler ::
  "bool \<Rightarrow> VALUE \<Rightarrow> int \<Rightarrow> thread_vars \<Rightarrow> thread_vars" where
  "scout_profile_broadcast_signal_handler during_gc cur register_result st =
     (if ok_to_sample st = False then st
      else if in_signal_handler st = True then
        st\<lparr> skipped_in_signal_handler := ATOMIC_ADD (skipped_in_signal_handler st) 1 \<rparr>
      else
        (handler_body during_gc cur register_result (st\<lparr> in_signal_handler := True \<rparr>))
          \<lparr> in_signal_handler := False \<rparr>)"

subsection \<open>The deferred capture\<close>

text \<open>
  \<^verbatim>\<open>rb_profile_frames(0, limit, buff, lines)\<close> belongs to the runtime. \<open>stack\<close>
  is the call stack of the running context, innermost frame first, each frame
  with its line; the call writes the first \<open>limit\<close> frames into the two buffers
  and returns how many it wrote.
\<close>

definition rb_profile_frames :: "(VALUE \<times> int) list \<Rightarrow> nat \<Rightarrow> c_trace \<Rightarrow> int \<times> c_trace" where
  "rb_profile_frames stack limit t =
     (let k = min (length stack) limit
      in (int k,
          t\<lparr> frames_buf := (\<lambda>n. if n < k then fst (stack ! n) else frames_buf t n),
             lines_buf := (\<lambda>n. if n < k then snd (stack ! n) else lines_buf t n) \<rparr>))"

definition scout_record_sample ::
  "fast16_rank \<Rightarrow> bool \<Rightarrow> VALUE \<Rightarrow> (VALUE \<times> int) list \<Rightarrow> thread_vars \<Rightarrow> thread_vars" where
  "scout_record_sample r during_gc cur stack st =
     (if ok_to_sample st = False then st
      else if during_gc then
        st\<lparr> skipped_in_gc := ATOMIC_ADD (skipped_in_gc st) 1 \<rparr>
      else if cur \<noteq> ruby_thread st then
        st\<lparr> skipped_in_not_running := ATOMIC_ADD (skipped_in_not_running st) 1 \<rparr>
      else
        (let c = unat (cur_traces_num st);
             sfi = int (unat (start_frame_index st));
             st1 =
               (if c < MAX_TRACES then
                  (let (num_frames, slot) = rb_profile_frames stack BUF_SIZE (traces st c)
                   in if fast16_sub r num_frames sfi > 2 then
                        st\<lparr> traces := (traces st)
                              (c := slot\<lparr> num_tracelines :=
                                 to_c_int (fast16_sub r (fast16_sub r num_frames sfi) 2) \<rparr>),
                            cur_traces_num := ATOMIC_ADD (cur_traces_num st) 1 \<rparr>
                      else st\<lparr> traces := (traces st)(c := slot) \<rparr>)
                else st)
         in st1\<lparr> job_registered := False \<rparr>))"

subsection \<open>Draining the buffer\<close>

datatype diagnostic = Non_profiled_thread | Non_data_frame ruby_type

text \<open>
  The inner loop of \<^verbatim>\<open>rb_scout_profile_frames\<close> over the entries \<open>ns\<close> of one
  trace: an entry whose frame has the type \<^verbatim>\<open>VALID_RUBY_FRAME\<close> is pushed as
  the pair of the frame and its line, any other is reported on stderr and left
  out. \<^verbatim>\<open>VALID_RUBY_FRAME\<close> is \<^verbatim>\<open>T_IMEMO\<close> where the headers define it and
  \<^verbatim>\<open>T_DATA\<close> otherwise: the parameter \<open>vrf\<close>.
\<close>

fun trace_lines ::
  "(nat \<Rightarrow> ruby_type) \<Rightarrow> ruby_type \<Rightarrow> c_trace \<Rightarrow> nat list \<Rightarrow>
   diagnostic list \<times> (VALUE \<times> VALUE) list \<Rightarrow> diagnostic list \<times> (VALUE \<times> VALUE) list" where
  "trace_lines heap vrf t [] acc = acc"
| "trace_lines heap vrf t (n # ns) (err, trace) =
     (if TYPE_of heap (frames_buf t n) = vrf then
        trace_lines heap vrf t ns (err, trace @ [(frames_buf t n, Fixnum (lines_buf t n))])
      else
        trace_lines heap vrf t ns (err @ [Non_data_frame (TYPE_of heap (frames_buf t n))], trace))"

text \<open>The outer loop over the slots \<open>is\<close> of the buffer.\<close>

fun collect_traces ::
  "(nat \<Rightarrow> ruby_type) \<Rightarrow> ruby_type \<Rightarrow> (nat \<Rightarrow> c_trace) \<Rightarrow> nat list \<Rightarrow>
   diagnostic list \<times> (VALUE \<times> VALUE) list list \<Rightarrow>
   diagnostic list \<times> (VALUE \<times> VALUE) list list" where
  "collect_traces heap vrf mem [] acc = acc"
| "collect_traces heap vrf mem (i # is) (err, result) =
     (if num_tracelines (mem i) > 0 then
        (let (err', trace) =
               trace_lines heap vrf (mem i) [0 ..< nat (num_tracelines (mem i))] (err, [])
         in collect_traces heap vrf mem is (err', result @ [trace]))
      else collect_traces heap vrf mem is (err, result))"

text \<open>
  \<^verbatim>\<open>rb_ary_new\<close>, \<^verbatim>\<open>rb_ary_new2\<close> and \<^verbatim>\<open>rb_ary_push\<close> belong to the runtime
  and build Ruby arrays, here lists. The argument of \<^verbatim>\<open>rb_ary_new2\<close> is a
  capacity to reserve, a C \<^verbatim>\<open>long\<close>: the runtime raises \<^verbatim>\<open>ArgumentError\<close> for
  a negative one and returns an empty array otherwise.
\<close>

datatype ruby_exception = ArgumentError

definition rb_ary_new2 :: "int \<Rightarrow> ruby_exception + 'a list" where
  "rb_ary_new2 capa = (if capa < 0 then Inl ArgumentError else Inr [])"

text \<open>
  The function gives what it wrote to stderr, the array it returns or the
  exception that leaves it, and the variables. An exception raised by
  \<^verbatim>\<open>rb_ary_new2\<close> leaves the function before it stores \<open>cur_traces_num\<close>.
\<close>

definition rb_scout_profile_frames ::
  "fast16_rank \<Rightarrow> (nat \<Rightarrow> ruby_type) \<Rightarrow> ruby_type \<Rightarrow> thread_vars \<Rightarrow>
   diagnostic list \<times> (ruby_exception + (VALUE \<times> VALUE) list list) \<times> thread_vars" where
  "rb_scout_profile_frames r heap vrf st =
     (if thread_registered st = False then
        ([Non_profiled_thread], Inr [], st\<lparr> cur_traces_num := ATOMIC_STORE_INT16 0 \<rparr>)
      else
        (let c = unat (cur_traces_num st);
             start = unat (start_trace_index st)
         in if fast16_sub r (int c) (int start) > 0 then
              (case rb_ary_new2 (to_c_long r (fast16_sub r (int c) (int start))) of
                 Inl e \<Rightarrow> ([], Inl e, st)
               | Inr ary \<Rightarrow>
                   (let (err, result) =
                          collect_traces heap vrf (traces st) [start ..< c] ([], ary)
                    in (err, Inr result,
                        st\<lparr> cur_traces_num := ATOMIC_STORE_INT16 (int start) \<rparr>)))
            else ([], Inr [], st\<lparr> cur_traces_num := ATOMIC_STORE_INT16 (int start) \<rparr>)))"

subsection \<open>Control\<close>

definition rb_scout_start_sampling ::
  "VALUE \<Rightarrow> (nat \<Rightarrow> c_trace) \<Rightarrow> thread_vars \<Rightarrow> VALUE \<times> thread_vars" where
  "rb_scout_start_sampling cur fresh st =
     (Qtrue, (snd (scout_add_profiled_thread cur fresh st))\<lparr> ok_to_sample := True \<rparr>)"

definition rb_scout_stop_sampling ::
  "(nat \<Rightarrow> ruby_type) \<Rightarrow> VALUE \<Rightarrow> thread_vars \<Rightarrow> VALUE \<times> thread_vars" where
  "rb_scout_stop_sampling heap reset st =
     (let st1 = st\<lparr> ok_to_sample := False \<rparr>
      in if TYPE_of heap reset = T_TRUE then
           (Qtrue,
            st1\<lparr> job_registered := False,
                 in_signal_handler := False,
                 start_trace_index := ATOMIC_STORE_INT16 0,
                 start_frame_index := ATOMIC_STORE_INT16 0,
                 cur_traces_num := ATOMIC_STORE_INT16 0,
                 skipped_in_gc := ATOMIC_STORE_INT32 0,
                 skipped_in_signal_handler := ATOMIC_STORE_INT32 0,
                 skipped_in_job_registered := ATOMIC_STORE_INT32 0,
                 skipped_in_not_running := ATOMIC_STORE_INT32 0 \<rparr>)
         else (Qtrue, st1))"

text \<open>
  \<open>frame_index\<close> and \<open>trace_index\<close> are the C integers \<^verbatim>\<open>NUM2INT\<close> makes of
  the two arguments.
\<close>

definition rb_scout_update_indexes :: "int \<Rightarrow> int \<Rightarrow> thread_vars \<Rightarrow> VALUE \<times> thread_vars" where
  "rb_scout_update_indexes frame_index trace_index st =
     (Qtrue, st\<lparr> start_trace_index := ATOMIC_STORE_INT16 trace_index,
                start_frame_index := ATOMIC_STORE_INT16 frame_index \<rparr>)"

text \<open>
  \<^verbatim>\<open>INT2NUM\<close> takes a C \<^verbatim>\<open>int\<close>: a 16-bit index keeps its value, a 32-bit
  counter is read as signed.
\<close>

definition rb_scout_current_trace_index :: "thread_vars \<Rightarrow> VALUE" where
  "rb_scout_current_trace_index st = Fixnum (uint (cur_traces_num st))"

definition rb_scout_skipped_in_gc :: "thread_vars \<Rightarrow> VALUE" where
  "rb_scout_skipped_in_gc st = Fixnum (sint (skipped_in_gc st))"

definition rb_scout_skipped_in_handler :: "thread_vars \<Rightarrow> VALUE" where
  "rb_scout_skipped_in_handler st = Fixnum (sint (skipped_in_signal_handler st))"

definition rb_scout_skipped_in_job_registered :: "thread_vars \<Rightarrow> VALUE" where
  "rb_scout_skipped_in_job_registered st = Fixnum (sint (skipped_in_job_registered st))"

definition rb_scout_skipped_in_not_running :: "thread_vars \<Rightarrow> VALUE" where
  "rb_scout_skipped_in_not_running st = Fixnum (sint (skipped_in_not_running st))"

subsection \<open>Sequences of calls on one thread\<close>

text \<open>
  What can happen to the variables of one thread: the calls of the Ruby methods
  and, at any moment, the signal and the deferred job, each with what it reads
  from the runtime. A step gives the variables after the call, or at the moment
  the call ends the process.
\<close>

datatype thread_op =
    Add_profiled_thread VALUE "nat \<Rightarrow> c_trace"
  | Remove_profiled_thread
  | Start_sampling VALUE "nat \<Rightarrow> c_trace"
  | Stop_sampling VALUE
  | Update_indexes int int
  | Profile_frames
  | Signal bool VALUE int
  | Record_sample bool VALUE "(VALUE \<times> int) list"

fun thread_step ::
  "fast16_rank \<Rightarrow> (nat \<Rightarrow> ruby_type) \<Rightarrow> ruby_type \<Rightarrow> thread_op \<Rightarrow> thread_vars \<Rightarrow> thread_vars" where
  "thread_step r heap vrf (Add_profiled_thread cur fresh) st =
     snd (rb_scout_add_profiled_thread cur fresh st)"
| "thread_step r heap vrf Remove_profiled_thread st =
     snd (rb_scout_remove_profiled_thread st)"
| "thread_step r heap vrf (Start_sampling cur fresh) st =
     snd (rb_scout_start_sampling cur fresh st)"
| "thread_step r heap vrf (Stop_sampling reset) st =
     snd (rb_scout_stop_sampling heap reset st)"
| "thread_step r heap vrf (Update_indexes frame_index trace_index) st =
     snd (rb_scout_update_indexes frame_index trace_index st)"
| "thread_step r heap vrf Profile_frames st =
     snd (snd (rb_scout_profile_frames r heap vrf st))"
| "thread_step r heap vrf (Signal during_gc cur register_result) st =
     scout_profile_broadcast_signal_handler during_gc cur register_result st"
| "thread_step r heap vrf (Record_sample during_gc cur stack) st =
     scout_record_sample r during_gc cur stack st"

text \<open>The call that ends the process: the removal of a registered thread.\<close>

fun ends_process :: "thread_op \<Rightarrow> thread_vars \<Rightarrow> bool" where
  "ends_process Remove_profiled_thread st = isl (fst (rb_scout_remove_profiled_thread st))"
| "ends_process x st = False"

text \<open>A run goes through its calls until one ends the process or none is left.\<close>

fun thread_run ::
  "fast16_rank \<Rightarrow> (nat \<Rightarrow> ruby_type) \<Rightarrow> ruby_type \<Rightarrow> thread_op list \<Rightarrow> thread_vars \<Rightarrow> thread_vars" where
  "thread_run r heap vrf [] st = st"
| "thread_run r heap vrf (x # xs) st =
     (if ends_process x st then thread_step r heap vrf x st
      else thread_run r heap vrf xs (thread_step r heap vrf x st))"

subsection \<open>The two bounds on the indices\<close>

definition trim_below_count :: "thread_vars \<Rightarrow> bool" where
  "trim_below_count st = (start_trace_index st \<le> cur_traces_num st)"

definition within_capacity :: "thread_vars \<Rightarrow> bool" where
  "within_capacity st =
     (unat (cur_traces_num st) \<le> MAX_TRACES \<and> unat (start_trace_index st) \<le> MAX_TRACES)"

text \<open>The calls that can move the trim index above the count of traces.\<close>

fun keeps_trim :: "thread_op \<Rightarrow> thread_vars \<Rightarrow> bool" where
  "keeps_trim (Update_indexes frame_index trace_index) st =
     (ATOMIC_STORE_INT16 trace_index \<le> cur_traces_num st)"
| "keeps_trim Profile_frames st = (thread_registered st \<or> start_trace_index st = 0)"
| "keeps_trim x st = True"

text \<open>An update of the indexes whose trace index, as stored, is within the buffer.\<close>

fun trace_index_within :: "thread_op \<Rightarrow> bool" where
  "trace_index_within (Update_indexes frame_index trace_index) =
     (unat (ATOMIC_STORE_INT16 trace_index) \<le> MAX_TRACES)"
| "trace_index_within x = True"

subsection \<open>What a drain returns, in the words of the specification\<close>


definition drained_region :: "thread_vars \<Rightarrow> c_trace list" where
  "drained_region st =
     map (traces st) [unat (start_trace_index st) ..< unat (cur_traces_num st)]"


text \<open>
  The entries of a stored trace whose frame is a valid frame, and the report of
  the others.
\<close>

definition valid_lines :: "(nat \<Rightarrow> ruby_type) \<Rightarrow> ruby_type \<Rightarrow> c_trace \<Rightarrow> (VALUE \<times> VALUE) list" where
  "valid_lines heap vrf t =
     map (\<lambda>n. (frames_buf t n, Fixnum (lines_buf t n)))
       (filter (\<lambda>n. TYPE_of heap (frames_buf t n) = vrf) [0 ..< nat (num_tracelines t)])"

definition invalid_frames :: "(nat \<Rightarrow> ruby_type) \<Rightarrow> ruby_type \<Rightarrow> c_trace \<Rightarrow> diagnostic list" where
  "invalid_frames heap vrf t =
     map (\<lambda>n. Non_data_frame (TYPE_of heap (frames_buf t n)))
       (filter (\<lambda>n. TYPE_of heap (frames_buf t n) \<noteq> vrf) [0 ..< nat (num_tracelines t)])"

subsection \<open>Example runs\<close>

definition zero_trace :: c_trace where
  "zero_trace = \<lparr> num_tracelines = 0, lines_buf = (\<lambda>n. 0), frames_buf = (\<lambda>n. Qfalse) \<rparr>"

definition zero_mem :: "nat \<Rightarrow> c_trace" where
  "zero_mem = (\<lambda>i. zero_trace)"

definition main_thread :: VALUE where
  "main_thread = Object 1"

text \<open>A heap where the object 10 is a node and every other object a frame.\<close>

definition example_heap :: "nat \<Rightarrow> ruby_type" where
  "example_heap = (\<lambda>a. if a = 10 then T_NODE else T_IMEMO)"

definition stack_of :: "nat \<Rightarrow> (VALUE \<times> int) list" where
  "stack_of n = map (\<lambda>k. (Object (10 + k), int k + 3)) [0 ..< n]"

text \<open>A registered thread that samples.\<close>

definition sampling_thread :: thread_vars where
  "sampling_thread =
     thread_run Unsigned64 example_heap T_IMEMO
       [Add_profiled_thread main_thread zero_mem, Start_sampling main_thread zero_mem]
       (initial_thread_vars zero_mem)"

text \<open>The same thread after one capture of a stack of four frames.\<close>

definition one_trace_thread :: thread_vars where
  "one_trace_thread =
     thread_run Unsigned64 example_heap T_IMEMO
       [Record_sample False main_thread (stack_of 4)] sampling_thread"

text \<open>The same thread after as many captures as the buffer has slots.\<close>

definition full_thread :: thread_vars where
  "full_thread =
     thread_run Unsigned64 example_heap T_IMEMO
       (replicate MAX_TRACES (Record_sample False main_thread (stack_of 10))) sampling_thread"

text \<open>
  The variables after \<open>n\<close> captures of a stack of ten frames by a thread that
  was not trimmed: \<open>n\<close> traces of eight lines and no sample skipped.
\<close>

definition captured :: "nat \<Rightarrow> thread_vars \<Rightarrow> bool" where
  "captured n st =
     (thread_registered st \<and> ok_to_sample st \<and> ruby_thread st = main_thread \<and>
      start_frame_index st = 0 \<and> start_trace_index st = 0 \<and>
      cur_traces_num st = of_nat n \<and>
      skipped_in_gc st = 0 \<and> skipped_in_signal_handler st = 0 \<and>
      skipped_in_job_registered st = 0 \<and> skipped_in_not_running st = 0 \<and>
      (\<forall>i < n. num_tracelines (traces st i) = 8))"


section \<open>Properties\<close>

lemmas atomics = ATOMIC_ADD_def ATOMIC_STORE_INT16_def ATOMIC_STORE_INT32_def

subsection \<open>The example threads\<close>

lemma sampling_thread_eq:
  "sampling_thread =
     \<lparr> traces = zero_mem, thread_registered = True, ok_to_sample = True,
       in_signal_handler = False, start_frame_index = 0, start_trace_index = 0,
       cur_traces_num = 0, skipped_in_gc = 0, skipped_in_signal_handler = 0,
       skipped_in_job_registered = 0, skipped_in_not_running = 0,
       ruby_thread = main_thread, job_registered = False \<rparr>"
  by (simp add: sampling_thread_def rb_scout_add_profiled_thread_def
      rb_scout_start_sampling_def scout_add_profiled_thread_def
      init_thread_vars_def initial_thread_vars_def atomics)

lemma length_stack_of [simp]: "length (stack_of n) = n"
  by (simp add: stack_of_def)

subsection \<open>The signal handler\<close>

text \<open>
  C2. The handler returns the variables as they are when sampling is off. When
  it is already running it adds one to \<open>skipped_in_signal_handler\<close> and nothing
  else. Otherwise it sets \<open>in_signal_handler\<close>, runs its body and clears
  \<open>in_signal_handler\<close>, and altogether one thing has changed: one is added to
  \<open>skipped_in_gc\<close> during a collection, else to \<open>skipped_in_not_running\<close> when
  another context runs, else nothing changes when a job is registered already,
  else \<open>job_registered\<close> is set when the job was queued (result 1 or 2), else one
  is added to \<open>skipped_in_job_registered\<close>.
\<close>

theorem handler_changes_one_thing:
  "(ok_to_sample st = False \<longrightarrow>
      scout_profile_broadcast_signal_handler during_gc cur rr st = st) \<and>
   (ok_to_sample st \<and> in_signal_handler st \<longrightarrow>
      scout_profile_broadcast_signal_handler during_gc cur rr st =
        st\<lparr> skipped_in_signal_handler := skipped_in_signal_handler st + 1 \<rparr>) \<and>
   (ok_to_sample st \<and> \<not> in_signal_handler st \<longrightarrow>
      scout_profile_broadcast_signal_handler during_gc cur rr st =
        (handler_body during_gc cur rr (st\<lparr> in_signal_handler := True \<rparr>))
          \<lparr> in_signal_handler := False \<rparr> \<and>
      in_signal_handler (scout_profile_broadcast_signal_handler during_gc cur rr st) = False \<and>
      scout_profile_broadcast_signal_handler during_gc cur rr st =
        (if during_gc then st\<lparr> skipped_in_gc := skipped_in_gc st + 1 \<rparr>
         else if cur \<noteq> ruby_thread st then
           st\<lparr> skipped_in_not_running := skipped_in_not_running st + 1 \<rparr>
         else if job_registered st then st
         else if rr = 1 \<or> rr = 2 then st\<lparr> job_registered := True \<rparr>
         else st\<lparr> skipped_in_job_registered := skipped_in_job_registered st + 1 \<rparr>))"
  by (simp add: scout_profile_broadcast_signal_handler_def handler_body_def atomics)

theorem handler_changes_one_thing_witness:
  "ok_to_sample (initial_thread_vars zero_mem) = False \<and>
   scout_profile_broadcast_signal_handler True main_thread 1 (initial_thread_vars zero_mem) =
     initial_thread_vars zero_mem \<and>
   ok_to_sample (sampling_thread\<lparr> in_signal_handler := True \<rparr>) \<and>
   in_signal_handler (sampling_thread\<lparr> in_signal_handler := True \<rparr>) \<and>
   scout_profile_broadcast_signal_handler False main_thread 1
       (sampling_thread\<lparr> in_signal_handler := True \<rparr>) =
     sampling_thread\<lparr> in_signal_handler := True, skipped_in_signal_handler := 1 \<rparr> \<and>
   ok_to_sample sampling_thread \<and> \<not> in_signal_handler sampling_thread \<and>
   scout_profile_broadcast_signal_handler True main_thread 1 sampling_thread =
     sampling_thread\<lparr> skipped_in_gc := 1 \<rparr> \<and>
   scout_profile_broadcast_signal_handler False (Object 2) 1 sampling_thread =
     sampling_thread\<lparr> skipped_in_not_running := 1 \<rparr> \<and>
   scout_profile_broadcast_signal_handler False main_thread 1 sampling_thread =
     sampling_thread\<lparr> job_registered := True \<rparr> \<and>
   scout_profile_broadcast_signal_handler False main_thread 0 sampling_thread =
     sampling_thread\<lparr> skipped_in_job_registered := 1 \<rparr>"
  using handler_changes_one_thing [of "initial_thread_vars zero_mem" True main_thread 1]
    handler_changes_one_thing [of "sampling_thread\<lparr> in_signal_handler := True \<rparr>"
      False main_thread 1]
    handler_changes_one_thing [of sampling_thread True main_thread 1]
    handler_changes_one_thing [of sampling_thread False "Object 2" 1]
    handler_changes_one_thing [of sampling_thread False main_thread 1]
    handler_changes_one_thing [of sampling_thread False main_thread 0]
  by (simp add: sampling_thread_eq initial_thread_vars_def handler_body_def atomics
      main_thread_def)

subsection \<open>Stopping\<close>

text \<open>
  C8. After \<open>stop_sampling\<close> with \<open>reset = true\<close> sampling is off, the flags
  are false, the three indices and the four skip counters are 0, and the
  methods that read the trace index and the counters return 0.
\<close>

theorem stop_sampling_reset:
  "snd (rb_scout_stop_sampling heap Qtrue st) =
     st\<lparr> ok_to_sample := False, job_registered := False, in_signal_handler := False,
         start_trace_index := 0, start_frame_index := 0, cur_traces_num := 0,
         skipped_in_gc := 0, skipped_in_signal_handler := 0,
         skipped_in_job_registered := 0, skipped_in_not_running := 0 \<rparr> \<and>
   rb_scout_current_trace_index (snd (rb_scout_stop_sampling heap Qtrue st)) = Fixnum 0 \<and>
   rb_scout_skipped_in_gc (snd (rb_scout_stop_sampling heap Qtrue st)) = Fixnum 0 \<and>
   rb_scout_skipped_in_handler (snd (rb_scout_stop_sampling heap Qtrue st)) = Fixnum 0 \<and>
   rb_scout_skipped_in_job_registered (snd (rb_scout_stop_sampling heap Qtrue st)) = Fixnum 0 \<and>
   rb_scout_skipped_in_not_running (snd (rb_scout_stop_sampling heap Qtrue st)) = Fixnum 0"
  by (simp add: rb_scout_stop_sampling_def atomics rb_scout_current_trace_index_def
      rb_scout_skipped_in_gc_def rb_scout_skipped_in_handler_def
      rb_scout_skipped_in_job_registered_def rb_scout_skipped_in_not_running_def)

theorem stop_sampling_reset_witness:
  "rb_scout_current_trace_index
     (snd (rb_scout_stop_sampling example_heap Qtrue one_trace_thread)) = Fixnum 0 \<and>
   ok_to_sample (snd (rb_scout_stop_sampling example_heap Qtrue one_trace_thread)) = False"
  using stop_sampling_reset [of example_heap one_trace_thread]
  by (simp add: rb_scout_current_trace_index_def)

text \<open>
  C10. \<open>stop_sampling\<close> with an argument that is not \<open>true\<close> changes
  \<open>ok_to_sample\<close> to false and no other variable of the thread.
\<close>

theorem stop_sampling_no_reset:
  "TYPE_of heap reset \<noteq> T_TRUE \<Longrightarrow>
   rb_scout_stop_sampling heap reset st = (Qtrue, st\<lparr> ok_to_sample := False \<rparr>)"
  by (simp add: rb_scout_stop_sampling_def)

theorem stop_sampling_no_reset_witness:
  "TYPE_of example_heap Qfalse \<noteq> T_TRUE \<and>
   rb_scout_stop_sampling example_heap Qfalse sampling_thread =
     (Qtrue, sampling_thread\<lparr> ok_to_sample := False \<rparr>)"
  using stop_sampling_no_reset [of example_heap Qfalse sampling_thread]
  by simp

subsection \<open>Installation\<close>

lemma engine_step_installed:
  "scout_profiling_installed g \<noteq> 0 \<Longrightarrow>
   scout_profiling_installed (snd (engine_step x g)) = scout_profiling_installed g"
  by (cases x)
    (simp_all add: rb_scout_install_profiling_def rb_scout_uninstall_profiling_def
      rb_scout_start_profiling_def)

lemma engine_run_keeps_installed:
  "scout_profiling_installed g \<noteq> 0 \<Longrightarrow>
   scout_profiling_installed (engine_run ops g) = scout_profiling_installed g"
proof (induction ops arbitrary: g)
  case Nil
  then show ?case by simp
next
  case (Cons x xs)
  have "scout_profiling_installed (snd (engine_step x g)) = scout_profiling_installed g"
    using Cons.prems by (rule engine_step_installed)
  moreover from this Cons.prems
  have "scout_profiling_installed (engine_run xs (snd (engine_step x g))) =
        scout_profiling_installed (snd (engine_step x g))"
    by (intro Cons.IH) simp
  ultimately show ?case by simp
qed

text \<open>
  C9. \<open>install\<close> returns true and sets the flag when the flag is not set. Once
  the flag is set, \<open>install\<close> returns false and changes nothing, no sequence of
  \<open>install\<close>, \<open>uninstall\<close> and \<open>start\<close> changes the flag, and \<open>install\<close> after
  any such sequence returns false again. \<open>uninstall\<close> changes nothing.
\<close>

theorem install_once:
  "(scout_profiling_installed g = 0 \<longrightarrow>
      rb_scout_install_profiling g = (Qtrue, g\<lparr> scout_profiling_installed := 1 \<rparr>)) \<and>
   (scout_profiling_installed g \<noteq> 0 \<longrightarrow>
      rb_scout_install_profiling g = (Qfalse, g) \<and>
      scout_profiling_installed (engine_run ops g) = scout_profiling_installed g \<and>
      rb_scout_install_profiling (engine_run ops g) = (Qfalse, engine_run ops g)) \<and>
   rb_scout_uninstall_profiling g = (Qnil, g)"
  using engine_run_keeps_installed [of g ops]
  by (simp add: rb_scout_install_profiling_def rb_scout_uninstall_profiling_def)

theorem install_once_witness:
  "rb_scout_install_profiling initial_engine =
     (Qtrue, \<lparr> scout_profiling_installed = 1, scout_profiling_running = 0 \<rparr>) \<and>
   fst (rb_scout_install_profiling
          (engine_run [Uninstall, Start_profiling, Install]
             (snd (rb_scout_install_profiling initial_engine)))) = Qfalse"
  using install_once [of initial_engine "[]"]
    install_once [of "snd (rb_scout_install_profiling initial_engine)"
      "[Uninstall, Start_profiling, Install]"]
  by (simp add: initial_engine_def rb_scout_install_profiling_def
      rb_scout_uninstall_profiling_def rb_scout_start_profiling_def)

subsection \<open>The deferred capture\<close>

text \<open>
  What is stored in \<open>num_tracelines\<close> is the mathematical difference less two
  for every kind of \<^verbatim>\<open>uint_fast16_t\<close>, and the test that guards the store is
  true when the difference is above two and, where \<^verbatim>\<open>uint_fast16_t\<close> is
  unsigned, also when it is negative.
\<close>

lemma to_c_int_in_range:
  "- (2 ^ 31) \<le> v \<Longrightarrow> v < 2 ^ 31 \<Longrightarrow> to_c_int v = v"
  by (simp add: to_c_int_def sint_sbintrunc' signed_take_bit_int_eq_self)

lemma to_c_int_eq: "to_c_int v = (v + 2 ^ 31) mod 2 ^ 32 - 2 ^ 31"
  by (simp add: to_c_int_def int_word_sint)

lemma to_c_int_mod32: "to_c_int (v mod 2 ^ 32) = to_c_int v"
proof -
  have "(v mod 2 ^ 32 + 2 ^ 31) mod 2 ^ 32 = (v + 2 ^ 31) mod (2 ^ 32 :: int)"
    by (rule mod_add_left_eq)
  then show ?thesis
    by (simp only: to_c_int_eq)
qed

lemma to_c_int_mod64: "to_c_int (v mod 2 ^ 64) = to_c_int v"
proof -
  have "(2 :: int) ^ 32 dvd 2 ^ 64"
    by (rule le_imp_power_dvd) simp
  then have "(v mod 2 ^ 64 + 2 ^ 31) mod 2 ^ 32 = (v + 2 ^ 31) mod (2 ^ 32 :: int)"
    by (metis mod_add_left_eq mod_mod_cancel)
  then show ?thesis
    by (simp only: to_c_int_eq)
qed

lemma stored_tracelines:
  "to_c_int (fast16_sub r (fast16_sub r a b) 2) = to_c_int (a - b - 2)"
proof (cases r)
  case Below_int
  then show ?thesis by (simp add: fast16_sub_def)
next
  case Unsigned32
  have "((a - b) mod 2 ^ 32 - 2) mod 2 ^ 32 = (a - b - 2) mod (2 ^ 32 :: int)"
    by (rule mod_diff_left_eq)
  then have "to_c_int (((a - b) mod 2 ^ 32 - 2) mod 2 ^ 32) = to_c_int (a - b - 2)"
    by (simp only: to_c_int_mod32)
  with Unsigned32 show ?thesis
    by (simp only: fast16_sub_def fast16_rank.case)
next
  case Unsigned64
  have "((a - b) mod 2 ^ 64 - 2) mod 2 ^ 64 = (a - b - 2) mod (2 ^ 64 :: int)"
    by (rule mod_diff_left_eq)
  then have "to_c_int (((a - b) mod 2 ^ 64 - 2) mod 2 ^ 64) = to_c_int (a - b - 2)"
    by (simp only: to_c_int_mod64)
  with Unsigned64 show ?thesis
    by (simp only: fast16_sub_def fast16_rank.case)
qed

lemma wrapped_mod:
  fixes d :: int
  assumes "- 65536 < d" "d < 0" "65536 \<le> m"
  shows "d mod m = d + m"
proof -
  have "(d + m) mod m = d mod m" by (rule mod_add_self2)
  moreover have "(d + m) mod m = d + m" using assms by (intro mod_pos_pos_trivial) simp_all
  ultimately show ?thesis by simp
qed

lemma stores_iff:
  assumes "0 \<le> a" "a \<le> 512" "0 \<le> b" "b < 65536"
  shows "(2 < fast16_sub r a b) = (2 < a - b \<or> r \<noteq> Below_int \<and> a < b)"
proof (cases "a < b")
  case True
  then have d: "- 65536 < a - b" "a - b < 0" using assms by simp_all
  have "(a - b) mod 2 ^ 32 = a - b + 2 ^ 32" "(a - b) mod 2 ^ 64 = a - b + 2 ^ 64"
    using d by (simp_all add: wrapped_mod)
  with True d show ?thesis
    by (cases r) (simp_all add: fast16_sub_def)
next
  case False
  then have "0 \<le> a - b" "a - b < 2 ^ 32" "a - b < 2 ^ 64" using assms by simp_all
  then have "fast16_sub r a b = a - b"
    by (cases r) (simp_all add: fast16_sub_def)
  with False show ?thesis by simp
qed

text \<open>
  A capture that passes the three checks and finds a free slot: with \<open>n\<close> the
  number of frames less \<open>start_frame_index\<close>, the trace is stored with \<open>n - 2\<close>
  lines and counted when \<open>2 < n\<close>, and also when \<open>n < 0\<close> where
  \<^verbatim>\<open>uint_fast16_t\<close> is unsigned; otherwise only the buffers of the slot are
  overwritten.
\<close>

lemma record_sample_at_introspection:
  assumes "ok_to_sample st" and "cur = ruby_thread st"
    and "unat (cur_traces_num st) < MAX_TRACES"
  shows "scout_record_sample r False cur stack st =
     (let c = unat (cur_traces_num st);
          n = int (min (length stack) BUF_SIZE) - int (unat (start_frame_index st));
          slot = snd (rb_profile_frames stack BUF_SIZE (traces st c))
      in if 2 < n \<or> r \<noteq> Below_int \<and> n < 0 then
           st\<lparr> traces := (traces st)(c := slot\<lparr> num_tracelines := n - 2 \<rparr>),
               cur_traces_num := cur_traces_num st + 1, job_registered := False \<rparr>
         else st\<lparr> traces := (traces st)(c := slot), job_registered := False \<rparr>)"
proof -
  define a where "a = int (min (length stack) BUF_SIZE)"
  define b where "b = int (unat (start_frame_index st))"
  have a: "0 \<le> a" "a \<le> 512" by (simp_all add: a_def BUF_SIZE_def)
  have b: "0 \<le> b" "b < 65536"
    using uint_bounded [of "start_frame_index st"] by (simp_all add: b_def)
  have s: "(2 < fast16_sub r a b) = (2 < a - b \<or> r \<noteq> Below_int \<and> a < b)"
    using a b by (rule stores_iff)
  have "- (2 ^ 31) \<le> a - b - 2" "a - b - 2 < 2 ^ 31" using a b by simp_all
  then have t: "to_c_int (fast16_sub r (fast16_sub r a b) 2) = a - b - 2"
    by (simp only: stored_tracelines to_c_int_in_range)
  have pf: "rb_profile_frames stack BUF_SIZE (traces st (unat (cur_traces_num st))) =
      (a, snd (rb_profile_frames stack BUF_SIZE (traces st (unat (cur_traces_num st)))))"
    by (simp add: rb_profile_frames_def Let_def a_def)
  show ?thesis
    using assms s t
    unfolding scout_record_sample_def Let_def a_def [symmetric] b_def [symmetric]
    by (subst pf) (simp add: atomics a_def [symmetric] b_def [symmetric])
qed

text \<open>
  Captures of a stack of ten frames by a thread that was not trimmed fill the
  buffer one slot at a time, each trace with eight lines.
\<close>

lemma unat_count:
  "n \<le> MAX_TRACES \<Longrightarrow> unat (of_nat n :: 16 word) = n"
  by (simp add: unat_of_nat MAX_TRACES_def)

lemma capture_step:
  assumes "n < MAX_TRACES" and "captured n st"
  shows "captured (Suc n) (scout_record_sample r False main_thread (stack_of 10) st)"
proof -
  have u: "unat (cur_traces_num st) = n"
    using assms by (simp add: captured_def unat_count)
  have "scout_record_sample r False main_thread (stack_of 10) st =
      st\<lparr> traces := (traces st)
             (n := (snd (rb_profile_frames (stack_of 10) BUF_SIZE (traces st n)))
                     \<lparr> num_tracelines := 8 \<rparr>),
          cur_traces_num := cur_traces_num st + 1, job_registered := False \<rparr>"
    using assms u
    by (subst record_sample_at_introspection) (simp_all add: captured_def BUF_SIZE_def)
  with assms show ?thesis
    by (simp add: captured_def less_Suc_eq)
qed

lemma captures_fill:
  "captured n st \<Longrightarrow> n + k \<le> MAX_TRACES \<Longrightarrow>
   captured (n + k)
     (thread_run r heap vrf (replicate k (Record_sample False main_thread (stack_of 10))) st)"
proof (induction k arbitrary: n st)
  case 0
  then show ?case by simp
next
  case (Suc k)
  then have "captured (Suc n) (scout_record_sample r False main_thread (stack_of 10) st)"
    by (simp add: capture_step)
  moreover have "Suc n + k \<le> MAX_TRACES" using Suc.prems by simp
  ultimately have "captured (Suc n + k)
     (thread_run r heap vrf (replicate k (Record_sample False main_thread (stack_of 10)))
        (scout_record_sample r False main_thread (stack_of 10) st))"
    by (rule Suc.IH)
  then show ?case by simp
qed

lemma captured_sampling_thread: "captured 0 sampling_thread"
  by (simp add: captured_def sampling_thread_eq)

lemma five_captures:
  "captured 5
     (thread_run r heap vrf (replicate 5 (Record_sample False main_thread (stack_of 10)))
        sampling_thread)"
  using captures_fill [OF captured_sampling_thread, of 5 r heap vrf]
  by (simp add: MAX_TRACES_def)

lemma captured_full_thread: "captured MAX_TRACES full_thread"
  using captures_fill [OF captured_sampling_thread, of MAX_TRACES Unsigned64 example_heap T_IMEMO]
  by (simp add: full_thread_def)

lemma full_thread_fields:
  "ok_to_sample full_thread" "ruby_thread full_thread = main_thread"
  "unat (cur_traces_num full_thread) = MAX_TRACES" "skipped_in_gc full_thread = 0"
  using captured_full_thread by (simp_all add: captured_def unat_count)

text \<open>When the capture clears \<open>job_registered\<close>, and when it does not.\<close>

lemma record_sample_job_registered:
  "job_registered (scout_record_sample r during_gc cur stack st) =
     (if ok_to_sample st \<and> \<not> during_gc \<and> cur = ruby_thread st then False
      else job_registered st)"
  by (simp add: scout_record_sample_def Let_def split: prod.split)

text \<open>
  C1 at its failing inputs. A job is registered by the handler; the deferred
  capture then returns early, because a collection is running, because another
  context is running, or because sampling was stopped in between. In all three
  runs \<open>job_registered\<close> is still true afterwards, and in the first a later
  signal, which would queue a job, changes nothing.
\<close>

theorem early_return_keeps_job_registered:
  "job_registered
     (thread_run Unsigned64 example_heap T_IMEMO
        [Signal False main_thread 1, Record_sample True main_thread (stack_of 10)]
        sampling_thread) = True \<and>
   job_registered
     (thread_run Unsigned64 example_heap T_IMEMO
        [Signal False main_thread 1, Record_sample False (Object 2) (stack_of 10)]
        sampling_thread) = True \<and>
   job_registered
     (thread_run Unsigned64 example_heap T_IMEMO
        [Signal False main_thread 1, Stop_sampling Qfalse,
         Record_sample False main_thread (stack_of 10)]
        sampling_thread) = True \<and>
   thread_run Unsigned64 example_heap T_IMEMO
     [Signal False main_thread 1, Record_sample True main_thread (stack_of 10),
      Signal False main_thread 1]
     sampling_thread =
   thread_run Unsigned64 example_heap T_IMEMO
     [Signal False main_thread 1, Record_sample True main_thread (stack_of 10)]
     sampling_thread"
  by (simp add: sampling_thread_eq scout_profile_broadcast_signal_handler_def handler_body_def
      scout_record_sample_def rb_scout_stop_sampling_def atomics main_thread_def)

text \<open>
  C3 at its failing input. Where \<^verbatim>\<open>uint_fast16_t\<close> is a 64-bit unsigned type,
  a capture of ten frames with \<open>start_frame_index = 11\<close> is not discarded: the
  difference wraps around, the trace is stored with \<open>- 3\<close> lines and the count
  of traces goes from 0 to 1.
\<close>

theorem wrapped_difference_is_stored:
  "cur_traces_num
     (thread_run Unsigned64 example_heap T_IMEMO
        [Update_indexes 11 0, Record_sample False main_thread (stack_of 10)]
        sampling_thread) = 1 \<and>
   num_tracelines
     (traces
        (thread_run Unsigned64 example_heap T_IMEMO
           [Update_indexes 11 0, Record_sample False main_thread (stack_of 10)]
           sampling_thread) 0) = - 3"
  by (simp add: sampling_thread_eq rb_scout_update_indexes_def scout_record_sample_def
      rb_profile_frames_def atomics MAX_TRACES_def BUF_SIZE_def fast16_sub_def to_c_int_def
      main_thread_def)

lemma one_trace_thread_fields:
  "thread_registered one_trace_thread"
  "cur_traces_num one_trace_thread = 1"
  "start_trace_index one_trace_thread = 0"
  "num_tracelines (traces one_trace_thread 0) = 2"
  "frames_buf (traces one_trace_thread 0) 0 = Object 10"
  "frames_buf (traces one_trace_thread 0) 1 = Object 11"
  "lines_buf (traces one_trace_thread 0) 0 = 3"
  "lines_buf (traces one_trace_thread 0) 1 = 4"
  by (simp_all add: one_trace_thread_def sampling_thread_eq scout_record_sample_def
      rb_profile_frames_def atomics MAX_TRACES_def BUF_SIZE_def fast16_sub_def to_c_int_def
      main_thread_def stack_of_def)

subsection \<open>Draining\<close>

lemma trace_lines_eq:
  "trace_lines heap vrf t ns (err, trace) =
     (err @ map (\<lambda>n. Non_data_frame (TYPE_of heap (frames_buf t n)))
              (filter (\<lambda>n. TYPE_of heap (frames_buf t n) \<noteq> vrf) ns),
      trace @ map (\<lambda>n. (frames_buf t n, Fixnum (lines_buf t n)))
                (filter (\<lambda>n. TYPE_of heap (frames_buf t n) = vrf) ns))"
  by (induction ns arbitrary: err trace) simp_all

lemma trace_lines_all:
  "trace_lines heap vrf t [0 ..< nat (num_tracelines t)] (err, []) =
     (err @ invalid_frames heap vrf t, valid_lines heap vrf t)"
  by (simp add: trace_lines_eq invalid_frames_def valid_lines_def)

lemma collect_traces_eq:
  "collect_traces heap vrf mem is (err, result) =
     (err @ concat (map (invalid_frames heap vrf)
                (filter (\<lambda>t. 0 < num_tracelines t) (map mem is))),
      result @ map (valid_lines heap vrf)
                (filter (\<lambda>t. 0 < num_tracelines t) (map mem is)))"
  by (induction "is" arbitrary: err result) (simp_all add: trace_lines_all)

text \<open>The capacity the drain asks for, as the runtime receives it.\<close>

lemma fast16_sub_exact:
  "0 \<le> a - b \<Longrightarrow> a - b < 65536 \<Longrightarrow> fast16_sub r a b = a - b"
  by (cases r) (simp_all add: fast16_sub_def)

lemma to_c_long_exact:
  assumes "- 65536 < d" and "d < 65536"
  shows "to_c_long r d = d"
proof -
  have "- (2 ^ 31) \<le> d" "d < 2 ^ 31" "- (2 ^ 63) \<le> d" "d < 2 ^ 63"
    using assms by simp_all
  then have "signed_take_bit 31 d = d" "signed_take_bit 63 d = d"
    by (simp_all only: signed_take_bit_int_eq_self)
  then show ?thesis
    by (cases r) (simp_all add: to_c_long_def sint_sbintrunc')
qed

lemma sint64_eq: "sint (word_of_int v :: 64 word) = (v + 2 ^ 63) mod 2 ^ 64 - 2 ^ 63"
  by (simp add: int_word_sint)

lemma to_c_long_sub: "to_c_long r (fast16_sub r a b) = to_c_long r (a - b)"
proof (cases r)
  case Below_int
  then show ?thesis by (simp add: fast16_sub_def)
next
  case Unsigned32
  have "to_c_int ((a - b) mod 2 ^ 32) = to_c_int (a - b)"
    by (rule to_c_int_mod32)
  with Unsigned32 show ?thesis
    by (simp only: fast16_sub_def to_c_long_def fast16_rank.case to_c_int_def)
next
  case Unsigned64
  have "((a - b) mod 2 ^ 64 + 2 ^ 63) mod 2 ^ 64 = (a - b + 2 ^ 63) mod (2 ^ 64 :: int)"
    by (rule mod_add_left_eq)
  with Unsigned64 show ?thesis
    by (simp only: fast16_sub_def to_c_long_def fast16_rank.case sint64_eq)
qed

lemma to_c_long_wrapped:
  assumes "r \<noteq> Below_int" and "- 65536 < a - b" and "a - b < 0"
  shows "0 < fast16_sub r a b" and "to_c_long r (fast16_sub r a b) = a - b"
proof -
  have "(a - b) mod 2 ^ 32 = a - b + 2 ^ 32" "(a - b) mod 2 ^ 64 = a - b + 2 ^ 64"
    using assms by (simp_all add: wrapped_mod)
  with assms show "0 < fast16_sub r a b"
    by (cases r) (simp_all add: fast16_sub_def)
  have "to_c_long r (a - b) = a - b"
    using assms by (intro to_c_long_exact) simp_all
  then show "to_c_long r (fast16_sub r a b) = a - b"
    by (simp only: to_c_long_sub)
qed

text \<open>
  What the drain does on a registered thread. Where \<^verbatim>\<open>uint_fast16_t\<close> is
  unsigned and \<open>start_trace_index\<close> is above \<open>cur_traces_num\<close>, the difference
  wraps around, \<^verbatim>\<open>rb_ary_new2\<close> receives a negative capacity and raises, and
  the variables stay as they are. In every other case the traces of the region
  are returned and \<open>cur_traces_num\<close> becomes \<open>start_trace_index\<close>.
\<close>

lemma drain_registered:
  assumes "thread_registered st"
  shows "rb_scout_profile_frames r heap vrf st =
     (if r \<noteq> Below_int \<and> cur_traces_num st < start_trace_index st then
        ([], Inl ArgumentError, st)
      else
        (concat (map (invalid_frames heap vrf)
           (filter (\<lambda>t. 0 < num_tracelines t) (drained_region st))),
         Inr (map (valid_lines heap vrf)
           (filter (\<lambda>t. 0 < num_tracelines t) (drained_region st))),
         st\<lparr> cur_traces_num := start_trace_index st \<rparr>))"
proof -
  define c where "c = uint (cur_traces_num st)"
  define s where "s = uint (start_trace_index st)"
  define stored where "stored = st\<lparr> cur_traces_num := start_trace_index st \<rparr>"
  define collected where
    "collected = collect_traces heap vrf (traces st)
       [unat (start_trace_index st) ..< unat (cur_traces_num st)] ([], [])"
  have b: "0 \<le> c" "c < 65536" "0 \<le> s" "s < 65536"
    using uint_bounded [of "cur_traces_num st"] uint_bounded [of "start_trace_index st"]
    by (simp_all add: c_def s_def)
  have lt: "(cur_traces_num st < start_trace_index st) = (c < s)"
    by (simp add: c_def s_def word_less_def)
  have region: "s \<le> c \<or> drained_region st = []"
    by (auto simp: drained_region_def c_def s_def word_le_nat_alt [symmetric] word_le_def)
  have code: "rb_scout_profile_frames r heap vrf st =
     (if 0 < fast16_sub r c s then
        (if to_c_long r (fast16_sub r c s) < 0 then ([], Inl ArgumentError, st)
         else (fst collected, Inr (snd collected), stored))
      else ([], Inr [], stored))"
    using assms
    by (simp add: rb_scout_profile_frames_def rb_ary_new2_def Let_def atomics c_def s_def
        stored_def collected_def split: prod.split)
  have result: "collected =
     (concat (map (invalid_frames heap vrf)
        (filter (\<lambda>t. 0 < num_tracelines t) (drained_region st))),
      map (valid_lines heap vrf)
        (filter (\<lambda>t. 0 < num_tracelines t) (drained_region st)))"
    by (simp add: collected_def collect_traces_eq drained_region_def)
  consider (wrapped) "r \<noteq> Below_int" "c < s" | (signed) "r = Below_int" "c < s" | (plain) "s \<le> c"
    by fastforce
  then show ?thesis
  proof cases
    case wrapped
    then have "0 < fast16_sub r c s" "to_c_long r (fast16_sub r c s) = c - s"
      using b by (simp_all add: to_c_long_wrapped)
    with wrapped lt show ?thesis
      unfolding code by simp
  next
    case signed
    then have "\<not> 0 < fast16_sub r c s"
      by (simp add: fast16_sub_def)
    moreover have "drained_region st = []"
      using signed region by simp
    ultimately show ?thesis
      using signed lt unfolding code by (simp add: stored_def)
  next
    case plain
    then have f: "fast16_sub r c s = c - s" "to_c_long r (c - s) = c - s"
      using b by (simp_all add: fast16_sub_exact to_c_long_exact)
    show ?thesis
    proof (cases "s < c")
      case True
      with plain f lt show ?thesis
        unfolding code by (simp add: result stored_def)
    next
      case False
      with plain have "c = s" by simp
      then have "cur_traces_num st = start_trace_index st"
        by (simp only: c_def s_def word_uint_eq_iff)
      then have "drained_region st = []"
        by (simp add: drained_region_def)
      with \<open>c = s\<close> f lt show ?thesis
        unfolding code by (simp add: stored_def)
    qed
  qed
qed








text \<open>
  The drain that raises: after \<open>update_indexes\<close> with the trace index 5 on a
  thread with one trace, where \<^verbatim>\<open>uint_fast16_t\<close> is unsigned.
\<close>

lemma drain_wrapped_capacity_raises:
  "rb_scout_profile_frames Unsigned64 example_heap T_IMEMO
       (one_trace_thread\<lparr> start_trace_index := 5 \<rparr>) =
     ([], Inl ArgumentError, one_trace_thread\<lparr> start_trace_index := 5 \<rparr>)"
  by (simp add: drain_registered one_trace_thread_fields word_less_nat_alt)

subsection \<open>The bounds on the indices\<close>

lemma unat_succ_below:
  fixes c :: "16 word"
  assumes "unat c < MAX_TRACES"
  shows "unat (c + 1) = unat c + 1"
proof -
  have "unat c + unat (1 :: 16 word) < 2 ^ LENGTH(16)"
    using assms by (simp add: MAX_TRACES_def)
  then have "unat (c + 1) = unat c + unat (1 :: 16 word)"
    by (simp only: unat_add_lem)
  then show ?thesis by simp
qed

lemma record_sample_indices:
  "start_trace_index (scout_record_sample r during_gc cur stack st) = start_trace_index st \<and>
   (cur_traces_num (scout_record_sample r during_gc cur stack st) = cur_traces_num st \<or>
    unat (cur_traces_num st) < MAX_TRACES \<and>
    cur_traces_num (scout_record_sample r during_gc cur stack st) = cur_traces_num st + 1)"
  by (simp add: scout_record_sample_def atomics Let_def split: prod.split)

lemma record_sample_keeps_trim:
  assumes "trim_below_count st"
  shows "trim_below_count (scout_record_sample r during_gc cur stack st)"
proof -
  let ?st' = "scout_record_sample r during_gc cur stack st"
  have s: "start_trace_index ?st' = start_trace_index st"
    using record_sample_indices by blast
  consider "cur_traces_num ?st' = cur_traces_num st"
    | "unat (cur_traces_num st) < MAX_TRACES" "cur_traces_num ?st' = cur_traces_num st + 1"
    using record_sample_indices [of r during_gc cur stack st] by blast
  then show ?thesis
  proof cases
    case 1
    with s assms show ?thesis by (simp add: trim_below_count_def)
  next
    case 2
    then have "unat (cur_traces_num ?st') = unat (cur_traces_num st) + 1"
      by (simp add: unat_succ_below)
    moreover have "unat (start_trace_index st) \<le> unat (cur_traces_num st)"
      using assms by (simp add: trim_below_count_def word_le_nat_alt)
    ultimately show ?thesis
      using s by (simp add: trim_below_count_def word_le_nat_alt)
  qed
qed

lemma record_sample_within:
  assumes "within_capacity st"
  shows "within_capacity (scout_record_sample r during_gc cur stack st)"
proof -
  let ?st' = "scout_record_sample r during_gc cur stack st"
  have s: "start_trace_index ?st' = start_trace_index st"
    using record_sample_indices by blast
  consider "cur_traces_num ?st' = cur_traces_num st"
    | "unat (cur_traces_num st) < MAX_TRACES" "cur_traces_num ?st' = cur_traces_num st + 1"
    using record_sample_indices [of r during_gc cur stack st] by blast
  then show ?thesis
  proof cases
    case 1
    with s assms show ?thesis by (simp add: within_capacity_def)
  next
    case 2
    then have "unat (cur_traces_num ?st') = unat (cur_traces_num st) + 1"
      by (simp add: unat_succ_below)
    with 2 s assms show ?thesis by (simp add: within_capacity_def)
  qed
qed

lemma handler_indices:
  "start_trace_index (scout_profile_broadcast_signal_handler during_gc cur rr st) =
     start_trace_index st \<and>
   cur_traces_num (scout_profile_broadcast_signal_handler during_gc cur rr st) =
     cur_traces_num st"
  by (simp add: scout_profile_broadcast_signal_handler_def handler_body_def)

lemma profile_frames_vars:
  "snd (snd (rb_scout_profile_frames r heap vrf st)) =
     (if \<not> thread_registered st then st\<lparr> cur_traces_num := 0 \<rparr>
      else if r \<noteq> Below_int \<and> cur_traces_num st < start_trace_index st then st
      else st\<lparr> cur_traces_num := start_trace_index st \<rparr>)"
proof (cases "thread_registered st")
  case True
  then show ?thesis by (simp add: drain_registered)
next
  case False
  then show ?thesis by (simp add: rb_scout_profile_frames_def atomics)
qed

lemma remove_profiled_thread_vars:
  "snd (rb_scout_remove_profiled_thread st) =
     (if thread_registered st then st\<lparr> ok_to_sample := False \<rparr> else st)"
  by (simp add: rb_scout_remove_profiled_thread_def remove_profiled_thread_def)

text \<open>
  C6, as the code has it. From variables with
  \<open>start_trace_index \<le> cur_traces_num\<close>, a call keeps the bound except in
  two cases: \<open>update_indexes\<close> with a trace index that, as stored, is above
  \<open>cur_traces_num\<close>, and a drain on a thread that is not registered while
  \<open>start_trace_index\<close> is not 0.
\<close>

theorem trim_kept_unless_moved:
  "trim_below_count st \<Longrightarrow>
   trim_below_count (thread_step r heap vrf x st) = keeps_trim x st"
proof (cases x)
  case (Record_sample during_gc cur stack)
  assume "trim_below_count st"
  with Record_sample show ?thesis by (simp add: record_sample_keeps_trim)
next
  case (Signal during_gc cur rr)
  assume "trim_below_count st"
  with Signal show ?thesis by (simp add: trim_below_count_def handler_indices)
next
  case Profile_frames
  assume "trim_below_count st"
  with Profile_frames show ?thesis
    by (simp add: trim_below_count_def profile_frames_vars)
next
  case (Update_indexes frame_index trace_index)
  then show ?thesis
    by (simp add: trim_below_count_def rb_scout_update_indexes_def)
next
  case (Stop_sampling reset)
  assume "trim_below_count st"
  with Stop_sampling show ?thesis
    by (simp add: trim_below_count_def rb_scout_stop_sampling_def atomics Let_def)
next
  case (Start_sampling cur fresh)
  assume "trim_below_count st"
  with Start_sampling show ?thesis
    by (simp add: trim_below_count_def rb_scout_start_sampling_def
        scout_add_profiled_thread_def init_thread_vars_def atomics)
next
  case Remove_profiled_thread
  assume "trim_below_count st"
  with Remove_profiled_thread show ?thesis
    by (simp add: trim_below_count_def remove_profiled_thread_vars)
next
  case (Add_profiled_thread cur fresh)
  assume "trim_below_count st"
  with Add_profiled_thread show ?thesis
    by (simp add: trim_below_count_def rb_scout_add_profiled_thread_def
        scout_add_profiled_thread_def init_thread_vars_def atomics)
qed

theorem trim_kept_unless_moved_witness:
  "trim_below_count one_trace_thread \<and>
   trim_below_count
     (thread_step Unsigned64 example_heap T_IMEMO (Update_indexes 0 1) one_trace_thread) \<and>
   trim_below_count
     (thread_step Unsigned64 example_heap T_IMEMO Profile_frames one_trace_thread) \<and>
   \<not> trim_below_count
     (thread_step Unsigned64 example_heap T_IMEMO (Update_indexes 0 2) one_trace_thread)"
proof -
  have t: "trim_below_count one_trace_thread"
    by (simp add: trim_below_count_def one_trace_thread_fields)
  show ?thesis
    using t trim_kept_unless_moved [OF t, of Unsigned64 example_heap T_IMEMO "Update_indexes 0 1"]
      trim_kept_unless_moved [OF t, of Unsigned64 example_heap T_IMEMO Profile_frames]
      trim_kept_unless_moved [OF t, of Unsigned64 example_heap T_IMEMO "Update_indexes 0 2"]
    by (simp add: one_trace_thread_fields atomics word_le_nat_alt)
qed

text \<open>
  C6 as stated fails: \<open>update_indexes\<close> with the trace index 5 on a thread with
  no trace moves \<open>start_trace_index\<close> above \<open>cur_traces_num\<close>.
\<close>

theorem update_indexes_breaks_trim:
  "trim_below_count sampling_thread \<and>
   \<not> trim_below_count
       (thread_step Unsigned64 example_heap T_IMEMO (Update_indexes 0 5) sampling_thread)"
  by (simp add: trim_below_count_def sampling_thread_eq rb_scout_update_indexes_def atomics)

lemma step_within_capacity:
  assumes "within_capacity st" and "trace_index_within x"
  shows "within_capacity (thread_step r heap vrf x st)"
proof (cases x)
  case (Record_sample during_gc cur stack)
  with assms show ?thesis by (simp add: record_sample_within)
next
  case (Signal during_gc cur rr)
  with assms show ?thesis by (simp add: within_capacity_def handler_indices)
next
  case Profile_frames
  with assms show ?thesis by (simp add: within_capacity_def profile_frames_vars)
next
  case (Update_indexes frame_index trace_index)
  with assms show ?thesis by (simp add: within_capacity_def rb_scout_update_indexes_def)
next
  case (Stop_sampling reset)
  with assms show ?thesis
    by (simp add: within_capacity_def rb_scout_stop_sampling_def atomics Let_def)
next
  case (Start_sampling cur fresh)
  with assms show ?thesis
    by (simp add: within_capacity_def rb_scout_start_sampling_def
        scout_add_profiled_thread_def init_thread_vars_def atomics)
next
  case Remove_profiled_thread
  with assms show ?thesis
    by (simp add: within_capacity_def remove_profiled_thread_vars)
next
  case (Add_profiled_thread cur fresh)
  with assms show ?thesis
    by (simp add: within_capacity_def rb_scout_add_profiled_thread_def
        scout_add_profiled_thread_def init_thread_vars_def atomics)
qed

lemma run_within_capacity:
  "within_capacity st \<Longrightarrow> list_all trace_index_within xs \<Longrightarrow>
   within_capacity (thread_run r heap vrf xs st)"
proof (induction xs arbitrary: st)
  case Nil
  then show ?case by simp
next
  case (Cons x xs)
  then have w: "within_capacity (thread_step r heap vrf x st)"
    by (simp add: step_within_capacity)
  show ?case
  proof (cases "ends_process x st")
    case True
    with w show ?thesis by simp
  next
    case False
    with w Cons show ?thesis by simp
  qed
qed

lemma registration_within_capacity:
  "\<not> thread_registered st \<Longrightarrow>
   within_capacity (thread_step r heap vrf (Add_profiled_thread cur fresh) st)"
  by (simp add: within_capacity_def rb_scout_add_profiled_thread_def
      scout_add_profiled_thread_def init_thread_vars_def atomics)

lemma full_buffer_drops:
  "ok_to_sample st \<Longrightarrow> \<not> during_gc \<Longrightarrow> cur = ruby_thread st \<Longrightarrow>
   unat (cur_traces_num st) = MAX_TRACES \<Longrightarrow>
   scout_record_sample r during_gc cur stack st = st\<lparr> job_registered := False \<rparr>"
  by (simp add: scout_record_sample_def)

text \<open>
  C4, as the code has it. After a registration, \<open>cur_traces_num\<close> stays at most
  \<open>MAX_TRACES\<close> through every sequence of calls whose \<open>update_indexes\<close> store a
  trace index of at most \<open>MAX_TRACES\<close>. A deferred capture that passes its three
  checks while \<open>cur_traces_num = MAX_TRACES\<close> clears \<open>job_registered\<close> and
  changes nothing else: no trace, no index and no counter.
\<close>

theorem count_bounded_when_trim_bounded:
  "(\<not> thread_registered st \<and> list_all trace_index_within xs \<longrightarrow>
      unat (cur_traces_num
        (thread_run r heap vrf (Add_profiled_thread cur fresh # xs) st)) \<le> MAX_TRACES) \<and>
   (ok_to_sample st \<and> \<not> during_gc \<and> cur = ruby_thread st \<and>
    unat (cur_traces_num st) = MAX_TRACES \<longrightarrow>
      scout_record_sample r during_gc cur stack st = st\<lparr> job_registered := False \<rparr>)"
proof (intro conjI impI)
  assume a: "\<not> thread_registered st \<and> list_all trace_index_within xs"
  then have "within_capacity (thread_step r heap vrf (Add_profiled_thread cur fresh) st)"
    using registration_within_capacity by blast
  with a have "within_capacity
      (thread_run r heap vrf xs (thread_step r heap vrf (Add_profiled_thread cur fresh) st))"
    using run_within_capacity by blast
  then show "unat (cur_traces_num
        (thread_run r heap vrf (Add_profiled_thread cur fresh # xs) st)) \<le> MAX_TRACES"
    by (simp add: within_capacity_def)
next
  assume "ok_to_sample st \<and> \<not> during_gc \<and> cur = ruby_thread st \<and>
    unat (cur_traces_num st) = MAX_TRACES"
  then show "scout_record_sample r during_gc cur stack st = st\<lparr> job_registered := False \<rparr>"
    by (simp add: full_buffer_drops)
qed

theorem count_bounded_when_trim_bounded_witness:
  "\<not> thread_registered (initial_thread_vars zero_mem) \<and>
   list_all trace_index_within [Update_indexes 0 2000, Profile_frames] \<and>
   unat (cur_traces_num
     (thread_run Below_int example_heap T_IMEMO
        [Add_profiled_thread main_thread zero_mem, Update_indexes 0 2000, Profile_frames]
        (initial_thread_vars zero_mem))) \<le> MAX_TRACES \<and>
   ok_to_sample full_thread \<and> main_thread = ruby_thread full_thread \<and>
   unat (cur_traces_num full_thread) = MAX_TRACES \<and>
   scout_record_sample Below_int False main_thread (stack_of 10) full_thread =
     full_thread\<lparr> job_registered := False \<rparr>"
  using count_bounded_when_trim_bounded [of "initial_thread_vars zero_mem"
      "[Update_indexes 0 2000, Profile_frames]" Below_int example_heap T_IMEMO main_thread
      zero_mem False "stack_of 10"]
    count_bounded_when_trim_bounded [of full_thread "[]" Below_int example_heap T_IMEMO
      main_thread zero_mem False "stack_of 10"]
  by (simp add: full_thread_fields initial_thread_vars_def atomics MAX_TRACES_def)

text \<open>
  C4 as stated fails twice. Where \<^verbatim>\<open>uint_fast16_t\<close> is promoted to \<^verbatim>\<open>int\<close>,
  a registration, \<open>update_indexes\<close> with the trace index 3000 and a drain leave
  \<open>cur_traces_num\<close> at 3000. And a deferred capture that finds the buffer full
  while a collection runs adds one to \<open>skipped_in_gc\<close>.
\<close>

theorem count_exceeds_capacity:
  "unat (cur_traces_num
     (thread_run Below_int example_heap T_IMEMO
        [Add_profiled_thread main_thread zero_mem, Update_indexes 0 3000, Profile_frames]
        (initial_thread_vars zero_mem))) = 3000 \<and>
   \<not> unat (cur_traces_num
     (thread_run Below_int example_heap T_IMEMO
        [Add_profiled_thread main_thread zero_mem, Update_indexes 0 3000, Profile_frames]
        (initial_thread_vars zero_mem))) \<le> MAX_TRACES \<and>
   unat (cur_traces_num full_thread) = MAX_TRACES \<and>
   skipped_in_gc full_thread = 0 \<and>
   skipped_in_gc (scout_record_sample Below_int True main_thread (stack_of 10) full_thread) = 1"
  by (simp add: initial_thread_vars_def rb_scout_add_profiled_thread_def
      scout_add_profiled_thread_def init_thread_vars_def rb_scout_update_indexes_def
      rb_scout_profile_frames_def fast16_sub_def atomics MAX_TRACES_def
      full_thread_fields [unfolded MAX_TRACES_def] scout_record_sample_def)

subsection \<open>Registration\<close>

text \<open>
  What a registration writes, whatever the variables are: the two flags, the
  three indices, the running context, the buffer and the mark of registration.
\<close>

lemma add_profiled_thread_writes:
  "\<not> thread_registered st \<Longrightarrow>
   scout_add_profiled_thread cur fresh st =
     (1, st\<lparr> ok_to_sample := False, in_signal_handler := False,
             start_frame_index := 0, start_trace_index := 0, cur_traces_num := 0,
             ruby_thread := cur, traces := fresh, thread_registered := True \<rparr>)"
  by (simp add: scout_add_profiled_thread_def init_thread_vars_def atomics)









end
